theory Spec2Isabelle
  imports Main "HOL-Library.Char_ord" "HOL-Library.List_Lexorder" "HOL-Library.Product_Lexorder"
begin

section \<open>Data model\<close>

text \<open>
  Values are JSON values (Python's \<open>Any\<close> as it arrives through the tool protocol);
  floating-point numbers are left out. A row (the spec's Record, a Python \<open>dict\<close>) is an
  association list: a Python dictionary iterates in insertion order, and the translator's
  loops depend on that order. A dictionary has no repeated key; the functions below are
  defined on every association list and the theorems hold for all of them.
\<close>

datatype jval =
    JNull
  | JBool bool
  | JInt int
  | JStr string
  | JArr "jval list"
  | JObj "(string \<times> jval) list"

type_synonym row = "(string \<times> jval) list"

text \<open>The payload of \<open>create_records\<close>: \<open>Union[Dict[str, Any], List[Dict[str, Any]]]\<close>.\<close>

datatype payload = Single row | Batch "row list"

text \<open>
  A raised Python exception (an instance of \<open>Exception\<close>): its class name and the
  string \<open>str(e)\<close> gives.
\<close>

datatype exn = Exn (exn_class: string) (str: string)

section \<open>The query builder of the backend SDK\<close>

text \<open>
  The SDK is not part of the repository. The translator only calls its builder methods
  and, once, \<open>execute\<close>. A query under construction is the list of builder calls made
  so far, in call order; every builder method returns the query extended by its own call.
\<close>

datatype call =
    Table string
  | Select string
  | Eq string jval
  | Order string bool
  | Limit int
  | Offset int
  | Insert payload
  | Update row
  | Delete

type_synonym query = "call list"

definition qb_table :: "string \<Rightarrow> query" where
  "qb_table t = [Table t]"

definition qb_select :: "query \<Rightarrow> string \<Rightarrow> query" where
  "qb_select q columns = q @ [Select columns]"

definition qb_eq :: "query \<Rightarrow> string \<Rightarrow> jval \<Rightarrow> query" where
  "qb_eq q column v = q @ [Eq column v]"

text \<open>\<open>query.order(column)\<close> is \<open>qb_order q column False\<close>; \<open>desc=True\<close> is \<open>True\<close>.\<close>

definition qb_order :: "query \<Rightarrow> string \<Rightarrow> bool \<Rightarrow> query" where
  "qb_order q column desc = q @ [Order column desc]"

definition qb_limit :: "query \<Rightarrow> int \<Rightarrow> query" where
  "qb_limit q n = q @ [Limit n]"

definition qb_offset :: "query \<Rightarrow> int \<Rightarrow> query" where
  "qb_offset q n = q @ [Offset n]"

definition qb_insert :: "query \<Rightarrow> payload \<Rightarrow> query" where
  "qb_insert q p = q @ [Insert p]"

definition qb_update :: "query \<Rightarrow> row \<Rightarrow> query" where
  "qb_update q updates = q @ [Update updates]"

definition qb_delete :: "query \<Rightarrow> query" where
  "qb_delete q = q @ [Delete]"

text \<open>
  The backend behind \<open>execute\<close> is a parameter: it maps a composed query and the
  backend's state to the response data or a raised exception, and the state afterwards.
  A session holds the backend's state and the log of the queries executed so far.
\<close>

type_synonym 'db backend = "query \<Rightarrow> 'db \<Rightarrow> (exn + row list) \<times> 'db"

record 'db session =
  store :: 'db
  requests :: "query list"

definition execute :: "'db backend \<Rightarrow> query \<Rightarrow> 'db session \<Rightarrow> (exn + row list) \<times> 'db session" where
  "execute exec q s =
     (case exec q (store s) of
        (response, db') \<Rightarrow> (response, s\<lparr>store := db', requests := requests s @ [q]\<rparr>))"

section \<open>Python semantics used by the translator\<close>

text \<open>
  \<open>str.lower()\<close>. Strings are byte strings (UTF-8); only the ASCII capitals change. No
  character outside ASCII lowers to \<open>a\<close>, \<open>s\<close> or \<open>c\<close>, so the comparison with
  \<open>"asc"\<close> comes out as in Python.
\<close>

definition lower_char :: "char \<Rightarrow> char" where
  "lower_char c =
     (let n = (of_char c :: nat) in if 65 \<le> n \<and> n \<le> 90 then char_of (n + 32) else c)"

definition lower :: "string \<Rightarrow> string" where
  "lower s = map lower_char s"

text \<open>Truthiness: \<open>None\<close> and the empty dictionary are falsy; \<open>None\<close> and \<open>0\<close> are falsy.\<close>

fun truthy_dict :: "('k \<times> 'v) list option \<Rightarrow> bool" where
  "truthy_dict None = False"
| "truthy_dict (Some d) = (d \<noteq> [])"

fun truthy_int :: "int option \<Rightarrow> bool" where
  "truthy_int None = False"
| "truthy_int (Some n) = (n \<noteq> 0)"

fun truthy_str :: "string option \<Rightarrow> bool" where
  "truthy_str None = False"
| "truthy_str (Some s) = (s \<noteq> [])"

section \<open>The query translator (supabase\_client.py)\<close>

text \<open>\<open>for column, value in filters.items(): query = query.eq(column, value)\<close>\<close>

fun apply_filters :: "query \<Rightarrow> (string \<times> jval) list \<Rightarrow> query" where
  "apply_filters q [] = q"
| "apply_filters q ((column, v) # rest) = apply_filters (qb_eq q column v) rest"

text \<open>
  \<open>for column, direction in order_by.items():\<close> ascending when
  \<open>direction.lower() == "asc"\<close>, else \<open>query.order(column, desc=True)\<close>.
\<close>

fun apply_order_by :: "query \<Rightarrow> (string \<times> string) list \<Rightarrow> query" where
  "apply_order_by q [] = q"
| "apply_order_by q ((column, direction) # rest) =
     apply_order_by
       (if lower direction = ''asc'' then qb_order q column False else qb_order q column True)
       rest"

text \<open>Lines 61 to 78 of \<open>read_records\<close>: the query as composed before \<open>execute\<close>.\<close>

definition read_query ::
  "string \<Rightarrow> string \<Rightarrow> (string \<times> jval) list option \<Rightarrow> int option \<Rightarrow> int option \<Rightarrow>
   (string \<times> string) list option \<Rightarrow> query" where
  "read_query table columns filters limit offset order_by =
     (let q0 = qb_select (qb_table table) columns;
          q1 = (if truthy_dict filters
                then (case filters of Some fs \<Rightarrow> apply_filters q0 fs | None \<Rightarrow> q0)
                else q0);
          q2 = (if truthy_dict order_by
                then (case order_by of Some ob \<Rightarrow> apply_order_by q1 ob | None \<Rightarrow> q1)
                else q1);
          q3 = (if truthy_int limit
                then (case limit of Some n \<Rightarrow> qb_limit q2 n | None \<Rightarrow> q2)
                else q2);
          q4 = (if truthy_int offset
                then (case offset of Some n \<Rightarrow> qb_offset q3 n | None \<Rightarrow> q3)
                else q3)
      in q4)"

definition SupabaseClient_read_records ::
  "'db backend \<Rightarrow> 'db session \<Rightarrow> string \<Rightarrow> string \<Rightarrow> (string \<times> jval) list option \<Rightarrow>
   int option \<Rightarrow> int option \<Rightarrow> (string \<times> string) list option \<Rightarrow>
   (exn + row list) \<times> 'db session" where
  "SupabaseClient_read_records exec s table columns filters limit offset order_by =
     execute exec (read_query table columns filters limit offset order_by) s"

definition create_query :: "string \<Rightarrow> payload \<Rightarrow> query" where
  "create_query table records = qb_insert (qb_table table) records"

definition SupabaseClient_create_records ::
  "'db backend \<Rightarrow> 'db session \<Rightarrow> string \<Rightarrow> payload \<Rightarrow> (exn + row list) \<times> 'db session" where
  "SupabaseClient_create_records exec s table records =
     execute exec (create_query table records) s"

definition update_query :: "string \<Rightarrow> row \<Rightarrow> (string \<times> jval) list \<Rightarrow> query" where
  "update_query table updates filters =
     qb_update (apply_filters (qb_table table) filters) updates"

definition SupabaseClient_update_records ::
  "'db backend \<Rightarrow> 'db session \<Rightarrow> string \<Rightarrow> row \<Rightarrow> (string \<times> jval) list \<Rightarrow>
   (exn + row list) \<times> 'db session" where
  "SupabaseClient_update_records exec s table updates filters =
     execute exec (update_query table updates filters) s"

definition delete_query :: "string \<Rightarrow> (string \<times> jval) list \<Rightarrow> query" where
  "delete_query table filters = qb_delete (apply_filters (qb_table table) filters)"

definition SupabaseClient_delete_records ::
  "'db backend \<Rightarrow> 'db session \<Rightarrow> string \<Rightarrow> (string \<times> jval) list \<Rightarrow>
   (exn + row list) \<times> 'db session" where
  "SupabaseClient_delete_records exec s table filters =
     execute exec (delete_query table filters) s"

section \<open>The tool adapter (server.py)\<close>

text \<open>
  The value a tool returns is a Python dictionary from a key to either a string (the
  error message) or a list of rows.
\<close>

datatype env_value = EString string | ERecords "row list"

type_synonym envelope = "(string \<times> env_value) list"

text \<open>
  Each tool body is \<open>try: ... return {"records": r}\<close> with
  \<open>except Exception as e: return {"error": str(e), "records": []}\<close>.
\<close>

definition read_records ::
  "'db backend \<Rightarrow> 'db session \<Rightarrow> string \<Rightarrow> string \<Rightarrow> (string \<times> jval) list option \<Rightarrow>
   int option \<Rightarrow> int option \<Rightarrow> (string \<times> string) list option \<Rightarrow> envelope \<times> 'db session" where
  "read_records exec s table columns filters limit offset order_by =
     (case SupabaseClient_read_records exec s table columns filters limit offset order_by of
        (Inr records, s') \<Rightarrow> ([(''records'', ERecords records)], s')
      | (Inl e, s') \<Rightarrow> ([(''error'', EString (str e)), (''records'', ERecords [])], s'))"

definition create_records ::
  "'db backend \<Rightarrow> 'db session \<Rightarrow> string \<Rightarrow> payload \<Rightarrow> envelope \<times> 'db session" where
  "create_records exec s table records =
     (case SupabaseClient_create_records exec s table records of
        (Inr created, s') \<Rightarrow> ([(''records'', ERecords created)], s')
      | (Inl e, s') \<Rightarrow> ([(''error'', EString (str e)), (''records'', ERecords [])], s'))"

definition update_records ::
  "'db backend \<Rightarrow> 'db session \<Rightarrow> string \<Rightarrow> row \<Rightarrow> (string \<times> jval) list \<Rightarrow>
   envelope \<times> 'db session" where
  "update_records exec s table updates filters =
     (case SupabaseClient_update_records exec s table updates filters of
        (Inr updated, s') \<Rightarrow> ([(''records'', ERecords updated)], s')
      | (Inl e, s') \<Rightarrow> ([(''error'', EString (str e)), (''records'', ERecords [])], s'))"

definition delete_records ::
  "'db backend \<Rightarrow> 'db session \<Rightarrow> string \<Rightarrow> (string \<times> jval) list \<Rightarrow> envelope \<times> 'db session" where
  "delete_records exec s table filters =
     (case SupabaseClient_delete_records exec s table filters of
        (Inr deleted, s') \<Rightarrow> ([(''records'', ERecords deleted)], s')
      | (Inl e, s') \<Rightarrow> ([(''error'', EString (str e)), (''records'', ERecords [])], s'))"

section \<open>Startup (\<open>SupabaseClient.__init__\<close> and the server module)\<close>

text \<open>
  \<open>os.getenv\<close> gives \<open>None\<close> for a variable that is not set: the environment is a
  partial map. The SDK's \<open>create_client\<close> is a parameter; it returns a client handle or
  raises.
\<close>

record 'c SupabaseClient =
  url :: string
  key :: string
  client :: 'c

definition missing_credentials :: exn where
  "missing_credentials =
     Exn ''ValueError''
       (''Missing required environment variables: '' @
        ''SUPABASE_URL and SUPABASE_SERVICE_ROLE_KEY must be set'')"

definition SupabaseClient_init ::
  "(string \<Rightarrow> string \<Rightarrow> exn + 'c) \<Rightarrow> (string \<Rightarrow> string option) \<Rightarrow> exn + 'c SupabaseClient" where
  "SupabaseClient_init create_client environ =
     (let u = environ ''SUPABASE_URL''; k = environ ''SUPABASE_SERVICE_ROLE_KEY''
      in if \<not> truthy_str u \<or> \<not> truthy_str k then Inl missing_credentials
         else (case (u, k) of
                 (Some u', Some k') \<Rightarrow>
                   (case create_client u' k' of
                      Inl e \<Rightarrow> Inl e
                    | Inr c \<Rightarrow> Inr \<lparr>url = u', key = k', client = c\<rparr>)
               | _ \<Rightarrow> Inl missing_credentials))"

text \<open>
  Importing \<open>server.py\<close>: the protocol server is created with no tool, then
  \<open>supabase = SupabaseClient()\<close> runs outside any \<open>try\<close>, then the four decorated
  functions are registered in source order. The result is the exception that left the
  module, if any, and the state reached.
\<close>

record 'c server_module =
  registered :: "string list"
  supabase :: "'c SupabaseClient option"

definition server_import ::
  "(string \<Rightarrow> string \<Rightarrow> exn + 'c) \<Rightarrow> (string \<Rightarrow> string option) \<Rightarrow>
   exn option \<times> 'c server_module" where
  "server_import create_client environ =
     (let m0 = \<lparr>registered = [], supabase = None\<rparr>
      in case SupabaseClient_init create_client environ of
           Inl e \<Rightarrow> (Some e, m0)
         | Inr sc \<Rightarrow>
             (None,
              m0\<lparr>supabase := Some sc,
                 registered := [''read_records'', ''create_records'', ''update_records'',
                                ''delete_records'']\<rparr>))"

section \<open>Observations on a composed query\<close>

fun table_of :: "query \<Rightarrow> string option" where
  "table_of [] = None"
| "table_of (Table t # q) = Some t"
| "table_of (_ # q) = table_of q"

fun eq_calls :: "query \<Rightarrow> (string \<times> jval) list" where
  "eq_calls [] = []"
| "eq_calls (Eq column v # q) = (column, v) # eq_calls q"
| "eq_calls (_ # q) = eq_calls q"

fun order_calls :: "query \<Rightarrow> (string \<times> bool) list" where
  "order_calls [] = []"
| "order_calls (Order column desc # q) = (column, desc) # order_calls q"
| "order_calls (_ # q) = order_calls q"

fun limit_calls :: "query \<Rightarrow> int list" where
  "limit_calls [] = []"
| "limit_calls (Limit n # q) = n # limit_calls q"
| "limit_calls (_ # q) = limit_calls q"

fun offset_calls :: "query \<Rightarrow> int list" where
  "offset_calls [] = []"
| "offset_calls (Offset n # q) = n # offset_calls q"
| "offset_calls (_ # q) = offset_calls q"

text \<open>The calls that name the operation, in call order.\<close>

fun is_operation :: "call \<Rightarrow> bool" where
  "is_operation (Select _) = True"
| "is_operation (Insert _) = True"
| "is_operation (Update _) = True"
| "is_operation Delete = True"
| "is_operation _ = False"

fun is_mutation :: "call \<Rightarrow> bool" where
  "is_mutation (Insert _) = True"
| "is_mutation (Update _) = True"
| "is_mutation Delete = True"
| "is_mutation _ = False"

definition operations :: "query \<Rightarrow> call list" where
  "operations q = filter is_operation q"

definition mutating :: "query \<Rightarrow> bool" where
  "mutating q = list_ex is_mutation q"

fun dict_items :: "('k \<times> 'v) list option \<Rightarrow> ('k \<times> 'v) list" where
  "dict_items None = []"
| "dict_items (Some d) = d"

section \<open>Orders on rows\<close>

text \<open>
  The value of a column in a row (\<open>JNull\<close> when the row has no such column), and a
  linear order on values by rank: booleans, integers, strings (lexicographic), then
  everything else.
\<close>

definition field :: "row \<Rightarrow> string \<Rightarrow> jval" where
  "field r column = (case map_of r column of None \<Rightarrow> JNull | Some v \<Rightarrow> v)"

fun rank :: "jval \<Rightarrow> nat \<times> int \<times> string" where
  "rank (JBool b) = (0, (if b then 1 else 0), [])"
| "rank (JInt i) = (1, i, [])"
| "rank (JStr s) = (2, 0, s)"
| "rank _ = (3, 0, [])"

definition non_decreasing :: "string \<Rightarrow> row list \<Rightarrow> bool" where
  "non_decreasing column rows = sorted (map (\<lambda>r. rank (field r column)) rows)"

definition non_increasing :: "string \<Rightarrow> row list \<Rightarrow> bool" where
  "non_increasing column rows = sorted (rev (map (\<lambda>r. rank (field r column)) rows))"

section \<open>A reference backend\<close>

text \<open>
  Modelled from the spec: the backend service and its SDK, which are not code of this
  repository. The spec's contract (sections 4.1 and 6): a table-scoped query with
  select, insert, update and delete, conjunctive equality filters, order, limit and
  offset, executed once. Tables are kept in memory; a table that does not exist makes
  the query raise. It instantiates the backend parameter in examples.
\<close>

type_synonym tables = "string \<Rightarrow> row list option"

definition matches :: "(string \<times> jval) list \<Rightarrow> row \<Rightarrow> bool" where
  "matches constraints r = list_all (\<lambda>(column, v). map_of r column = Some v) constraints"

definition sort_clause :: "string \<times> bool \<Rightarrow> row list \<Rightarrow> row list" where
  "sort_clause clause rows =
     (case clause of
        (column, desc) \<Rightarrow>
          if desc then rev (sort_key (\<lambda>r. rank (field r column)) (rev rows))
          else sort_key (\<lambda>r. rank (field r column)) rows)"

text \<open>The first clause is the primary key of the order: it is applied last, and stably.\<close>

definition sort_rows :: "(string \<times> bool) list \<Rightarrow> row list \<Rightarrow> row list" where
  "sort_rows clauses rows = foldr sort_clause clauses rows"

definition window :: "int list \<Rightarrow> int list \<Rightarrow> row list \<Rightarrow> row list" where
  "window limits offsets rows =
     (let skipped = (case offsets of [] \<Rightarrow> rows | n # _ \<Rightarrow> drop (nat n) rows)
      in case limits of [] \<Rightarrow> skipped | n # _ \<Rightarrow> take (nat n) skipped)"

fun split_on :: "char \<Rightarrow> string \<Rightarrow> string list" where
  "split_on d [] = [[]]"
| "split_on d (c # cs) =
     (if c = d then [] # split_on d cs
      else (case split_on d cs of [] \<Rightarrow> [[c]] | w # ws \<Rightarrow> (c # w) # ws))"

definition column_names :: "string \<Rightarrow> string list" where
  "column_names columns = map (filter (\<lambda>c. c \<noteq> CHR '' '')) (split_on CHR '','' columns)"

definition selected :: "string \<Rightarrow> string \<Rightarrow> bool" where
  "selected columns k = (columns = ''*'' \<or> k \<in> set (column_names columns))"

definition project :: "string \<Rightarrow> row \<Rightarrow> row" where
  "project columns r = filter (\<lambda>(k, v). selected columns k) r"

fun set_field :: "string \<Rightarrow> jval \<Rightarrow> row \<Rightarrow> row" where
  "set_field k v [] = [(k, v)]"
| "set_field k v ((k', v') # r) = (if k = k' then (k, v) # r else (k', v') # set_field k v r)"

definition apply_updates :: "row \<Rightarrow> row \<Rightarrow> row" where
  "apply_updates updates r = fold (\<lambda>(k, v). set_field k v) updates r"

fun payload_rows :: "payload \<Rightarrow> row list" where
  "payload_rows (Single r) = [r]"
| "payload_rows (Batch rs) = rs"

text \<open>
  Modelled from the spec: what the backend does with a composed query. The first table call
  names the table and the first operation call the operation; the equality constraints are
  conjoined; a select filters, sorts, skips the offset, caps at the limit and projects the
  columns; an insert returns the rows it stored; an update returns the rows it changed, as
  changed; a delete returns the rows it removed.
\<close>

definition ref_execute :: "tables backend" where
  "ref_execute q db =
     (case table_of q of
        None \<Rightarrow> (Inl (Exn ''APIError'' ''no table''), db)
      | Some t \<Rightarrow>
          (case db t of
             None \<Rightarrow> (Inl (Exn ''APIError'' (''relation '' @ t @ '' does not exist'')), db)
           | Some rows \<Rightarrow>
               (case operations q of
                  Select columns # _ \<Rightarrow>
                    (Inr (map (project columns)
                            (window (limit_calls q) (offset_calls q)
                               (sort_rows (order_calls q) (filter (matches (eq_calls q)) rows)))),
                     db)
                | Insert p # _ \<Rightarrow> (Inr (payload_rows p), db(t \<mapsto> rows @ payload_rows p))
                | Update updates # _ \<Rightarrow>
                    (Inr (map (apply_updates updates) (filter (matches (eq_calls q)) rows)),
                     db(t \<mapsto> map (\<lambda>r. if matches (eq_calls q) r then apply_updates updates r else r) rows))
                | Delete # _ \<Rightarrow>
                    (Inr (filter (matches (eq_calls q)) rows),
                     db(t \<mapsto> filter (\<lambda>r. \<not> matches (eq_calls q) r) rows))
                | _ \<Rightarrow> (Inl (Exn ''APIError'' ''no operation''), db))))"

text \<open>What a claim may assume of a backend.\<close>

definition select_query :: "query \<Rightarrow> bool" where
  "select_query q = (case operations q of Select _ # _ \<Rightarrow> True | _ \<Rightarrow> False)"

definition honours_order :: "'db backend \<Rightarrow> bool" where
  "honours_order exec =
     (\<forall>q db rows db'. select_query q \<longrightarrow> exec q db = (Inr rows, db') \<longrightarrow>
        (case order_calls q of
           [] \<Rightarrow> True
         | (column, desc) # _ \<Rightarrow>
             if desc then non_increasing column rows else non_decreasing column rows))"

definition read_only :: "'db backend \<Rightarrow> bool" where
  "read_only exec = (\<forall>q db. \<not> mutating q \<longrightarrow> snd (exec q db) = db)"

section \<open>Example data\<close>

definition events :: "row list" where
  "events =
     [[(''id'', JInt 1), (''kind'', JStr ''login''), (''created_at'', JStr ''2024-01-01'')],
      [(''id'', JInt 2), (''kind'', JStr ''logout''), (''created_at'', JStr ''2024-01-02'')],
      [(''id'', JInt 3), (''kind'', JStr ''login''), (''created_at'', JStr ''2024-01-03'')]]"

definition demo_tables :: tables where
  "demo_tables = (\<lambda>t. if t = ''events'' then Some events else None)"

definition demo_session :: "tables session" where
  "demo_session = \<lparr>store = demo_tables, requests = []\<rparr>"

definition demo_environ :: "string \<Rightarrow> string option" where
  "demo_environ name =
     (if name = ''SUPABASE_URL'' then Some ''https://demo.supabase.co''
      else if name = ''SUPABASE_SERVICE_ROLE_KEY'' then Some ''service-role-secret''
      else None)"

text \<open>An environment whose key is set to the empty string.\<close>

definition empty_key_environ :: "string \<Rightarrow> string option" where
  "empty_key_environ name =
     (if name = ''SUPABASE_URL'' then Some ''https://demo.supabase.co''
      else if name = ''SUPABASE_SERVICE_ROLE_KEY'' then Some []
      else None)"

definition demo_create_client :: "string \<Rightarrow> string \<Rightarrow> exn + string \<times> string" where
  "demo_create_client u k = Inr (u, k)"

text \<open>A \<open>create_client\<close> that raises on the values it is given.\<close>

definition rejecting_create_client :: "string \<Rightarrow> string \<Rightarrow> exn + string \<times> string" where
  "rejecting_create_client u k = Inl (Exn ''SupabaseException'' ''Invalid URL'')"

section \<open>Comparison with \<open>"asc"\<close> ignores case\<close>

lemma chr_codes:
  "CHR ''a'' = char_of (97::nat)" "CHR ''s'' = char_of (115::nat)" "CHR ''c'' = char_of (99::nat)"
  "CHR ''A'' = char_of (65::nat)" "CHR ''S'' = char_of (83::nat)" "CHR ''C'' = char_of (67::nat)"
  by code_simp+

lemma of_char_less: "(of_char c :: nat) < 256"
proof -
  have "(of_char c :: nat) mod 256 < 256" by (rule mod_less_divisor) simp
  then show ?thesis by (simp only: of_char_mod_256)
qed

lemma char_of_inj_small:
  assumes "n < 256" and "m < (256::nat)"
  shows "(char_of n :: char) = char_of m \<longleftrightarrow> n = m"
proof
  assume "(char_of n :: char) = char_of m"
  then have "(of_char (char_of n :: char) :: nat) = of_char (char_of m :: char)" by (rule arg_cong)
  then have "n mod 256 = m mod 256" by (simp only: of_char_of)
  with assms show "n = m" by simp
qed simp


lemma lower_char_iff:
  assumes "65 \<le> m" and "m \<le> (90::nat)"
  shows "lower_char c = char_of (m + 32) \<longleftrightarrow> c = char_of (m + 32) \<or> c = char_of m"
proof -
  define n where "n = (of_char c :: nat)"
  have lt: "n < 256" unfolding n_def by (rule of_char_less)
  have c: "c = char_of n" unfolding n_def by simp
  have low: "lower_char c = (if 65 \<le> n \<and> n \<le> 90 then char_of (n + 32) else c)"
    unfolding n_def lower_char_def Let_def ..
  show ?thesis
  proof (cases "65 \<le> n \<and> n \<le> 90")
    case True
    have 1: "(char_of (n + 32) :: char) = char_of (m + 32) \<longleftrightarrow> n = m"
      using char_of_inj_small [of "n + 32" "m + 32"] True assms by simp
    have 2: "c = char_of m \<longleftrightarrow> n = m"
      using char_of_inj_small [of n m] lt assms unfolding c by simp
    have 3: "c \<noteq> char_of (m + 32)"
      using char_of_inj_small [of n "m + 32"] lt True assms unfolding c by simp
    show ?thesis using True 1 2 3 low by simp
  next
    case False
    have "c \<noteq> char_of m"
      using char_of_inj_small [of n m] lt False assms unfolding c by auto
    moreover have "lower_char c = c" using False low by (simp only: if_False)
    ultimately show ?thesis by (simp only: simp_thms)
  qed
qed

lemma lower_eq_asc:
  "lower d = ''asc'' \<longleftrightarrow>
     d \<in> {''asc'', ''asC'', ''aSc'', ''aSC'', ''Asc'', ''AsC'', ''ASc'', ''ASC''}"
proof -
  have a: "lower_char x = CHR ''a'' \<longleftrightarrow> x = CHR ''a'' \<or> x = CHR ''A''" for x
    using lower_char_iff [of 65 x] by (simp add: chr_codes)
  have s: "lower_char x = CHR ''s'' \<longleftrightarrow> x = CHR ''s'' \<or> x = CHR ''S''" for x
    using lower_char_iff [of 83 x] by (simp add: chr_codes)
  have c: "lower_char x = CHR ''c'' \<longleftrightarrow> x = CHR ''c'' \<or> x = CHR ''C''" for x
    using lower_char_iff [of 67 x] by (simp add: chr_codes)
  have "lower d = ''asc'' \<longleftrightarrow>
        (\<exists>x y z. d = [x, y, z] \<and> lower_char x = CHR ''a'' \<and> lower_char y = CHR ''s''
           \<and> lower_char z = CHR ''c'')"
    unfolding lower_def by (auto simp: map_eq_Cons_conv)
  also have "\<dots> \<longleftrightarrow> d \<in> {''asc'', ''asC'', ''aSc'', ''aSC'', ''Asc'', ''AsC'', ''ASc'', ''ASC''}"
    unfolding a s c by auto
  finally show ?thesis .
qed

section \<open>Composition of a query\<close>

lemma apply_filters_eq: "apply_filters q fs = q @ map (\<lambda>(column, v). Eq column v) fs"
  by (induction q fs rule: apply_filters.induct) (simp_all add: qb_eq_def)

lemma apply_order_by_eq:
  "apply_order_by q ob = q @ map (\<lambda>(column, direction). Order column (lower direction \<noteq> ''asc'')) ob"
  by (induction q ob rule: apply_order_by.induct) (simp_all add: qb_order_def)

lemma read_query_shape:
  "read_query table columns filters limit offset order_by =
     [Table table, Select columns]
     @ map (\<lambda>(column, v). Eq column v) (dict_items filters)
     @ map (\<lambda>(column, direction). Order column (lower direction \<noteq> ''asc'')) (dict_items order_by)
     @ (case limit of None \<Rightarrow> [] | Some n \<Rightarrow> if n = 0 then [] else [Limit n])
     @ (case offset of None \<Rightarrow> [] | Some n \<Rightarrow> if n = 0 then [] else [Offset n])"
  by (cases filters; cases order_by; cases limit; cases offset)
     (simp_all add: read_query_def Let_def qb_table_def qb_select_def qb_limit_def qb_offset_def
        apply_filters_eq apply_order_by_eq)

lemma eq_calls_append: "eq_calls (q @ q') = eq_calls q @ eq_calls q'"
  by (induction q rule: eq_calls.induct) simp_all

lemma order_calls_append: "order_calls (q @ q') = order_calls q @ order_calls q'"
  by (induction q rule: order_calls.induct) simp_all

lemma eq_calls_Eqs: "eq_calls (map (\<lambda>(column, v). Eq column v) fs) = fs"
  by (induction fs) auto

lemma eq_calls_Orders: "eq_calls (map (\<lambda>(column, direction). Order column (g direction)) ob) = []"
  by (induction ob) auto

lemma order_calls_Eqs: "order_calls (map (\<lambda>(column, v). Eq column v) fs) = []"
  by (induction fs) auto

lemma order_calls_Orders:
  "order_calls (map (\<lambda>(column, direction). Order column (g direction)) ob) =
     map (\<lambda>(column, direction). (column, g direction)) ob"
  by (induction ob) auto

lemma order_calls_read_query:
  "order_calls (read_query table columns filters limit offset order_by) =
     map (\<lambda>(column, direction). (column, lower direction \<noteq> ''asc'')) (dict_items order_by)"
  by (simp add: read_query_shape order_calls_append order_calls_Eqs order_calls_Orders
      split: option.splits)

lemma eq_calls_read_query:
  "eq_calls (read_query table columns filters limit offset order_by) = dict_items filters"
  by (simp add: read_query_shape eq_calls_append eq_calls_Eqs eq_calls_Orders
      split: option.splits)

lemma operations_read_query:
  "operations (read_query table columns filters limit offset order_by) = [Select columns]"
  by (simp add: read_query_shape operations_def filter_empty_conv split: option.splits) auto

lemma not_mutating_read_query:
  "\<not> mutating (read_query table columns filters limit offset order_by)"
  by (simp add: read_query_shape mutating_def list_ex_iff split: option.splits) auto

lemma table_of_read_query:
  "table_of (read_query table columns filters limit offset order_by) = Some table"
  by (simp add: read_query_shape)

lemma limit_calls_append: "limit_calls (q @ q') = limit_calls q @ limit_calls q'"
  by (induction q rule: limit_calls.induct) simp_all

lemma offset_calls_append: "offset_calls (q @ q') = offset_calls q @ offset_calls q'"
  by (induction q rule: offset_calls.induct) simp_all

lemma limit_calls_Eqs: "limit_calls (map (\<lambda>(column, v). Eq column v) fs) = []"
  by (induction fs) auto

lemma limit_calls_Orders: "limit_calls (map (\<lambda>(column, direction). Order column (g direction)) ob) = []"
  by (induction ob) auto

lemma offset_calls_Eqs: "offset_calls (map (\<lambda>(column, v). Eq column v) fs) = []"
  by (induction fs) auto

lemma offset_calls_Orders: "offset_calls (map (\<lambda>(column, direction). Order column (g direction)) ob) = []"
  by (induction ob) auto

lemma limit_calls_read_query:
  "limit_calls (read_query table columns filters limit offset order_by) =
     (case limit of None \<Rightarrow> [] | Some n \<Rightarrow> if n = 0 then [] else [n])"
  by (simp add: read_query_shape limit_calls_append limit_calls_Eqs limit_calls_Orders
      split: option.splits)

lemma offset_calls_read_query:
  "offset_calls (read_query table columns filters limit offset order_by) =
     (case offset of None \<Rightarrow> [] | Some n \<Rightarrow> if n = 0 then [] else [n])"
  by (simp add: read_query_shape offset_calls_append offset_calls_Eqs offset_calls_Orders
      split: option.splits)

section \<open>The reference backend meets the contracts\<close>

lemma map_of_filter_keys:
  "map_of (filter (\<lambda>(k, v). P k) r) column = (if P column then map_of r column else None)"
  by (induction r) auto

lemma field_project:
  "field (project columns r) column = (if selected columns column then field r column else JNull)"
  by (simp add: project_def field_def map_of_filter_keys)

lemma keys_project:
  "map (\<lambda>r. rank (field r column)) (map (project columns) rows) =
     (if selected columns column then map (\<lambda>r. rank (field r column)) rows
      else replicate (length rows) (rank JNull))"
  by (induction rows) (simp_all add: field_project)

lemma sorted_keys_window:
  assumes "sorted (map f rows)"
  shows "sorted (map f (window limits offsets rows))"
proof -
  have d: "sorted (map f (drop n rows))" for n
    using assms by (simp add: drop_map [symmetric])
  have t: "sorted (map f xs) \<Longrightarrow> sorted (map f (take n xs))" for n xs
    by (simp add: take_map [symmetric])
  show ?thesis
    using assms d t by (auto simp: window_def Let_def split: list.splits)
qed

lemma sorted_rev_keys_window:
  assumes "sorted (rev (map f rows))"
  shows "sorted (rev (map f (window limits offsets rows)))"
proof -
  have d: "sorted (rev (map f xs)) \<Longrightarrow> sorted (rev (map f (drop n xs)))" for n xs
    by (simp add: drop_map [symmetric] rev_drop)
  have t: "sorted (rev (map f xs)) \<Longrightarrow> sorted (rev (map f (take n xs)))" for n xs
    by (simp add: take_map [symmetric] rev_take)
  show ?thesis
    using assms d t by (auto simp: window_def Let_def split: list.splits)
qed

lemma sort_rows_primary_asc:
  "non_decreasing column (sort_rows ((column, False) # clauses) rows)"
  by (simp add: sort_rows_def sort_clause_def non_decreasing_def)

lemma sort_rows_primary_desc:
  "non_increasing column (sort_rows ((column, True) # clauses) rows)"
  by (simp add: sort_rows_def sort_clause_def non_increasing_def rev_map [symmetric])

lemma non_decreasing_project:
  assumes "non_decreasing column rows"
  shows "non_decreasing column (map (project columns) rows)"
  using assms unfolding non_decreasing_def keys_project by simp

lemma non_increasing_project:
  assumes "non_increasing column rows"
  shows "non_increasing column (map (project columns) rows)"
  using assms unfolding non_increasing_def keys_project by simp

lemma ref_execute_select:
  assumes "select_query q" and "ref_execute q db = (Inr rows, db')"
  shows "\<exists>columns all. rows = map (project columns)
            (window (limit_calls q) (offset_calls q) (sort_rows (order_calls q) all))"
  using assms
  by (auto simp: select_query_def ref_execute_def split: option.splits list.splits call.splits)

lemma ref_honours_order: "honours_order ref_execute"
  unfolding honours_order_def
proof (intro allI impI)
  fix q db rows db'
  assume sel: "select_query q" and ex: "ref_execute q db = (Inr rows, db')"
  from ref_execute_select [OF sel ex] obtain columns all where
    rows: "rows = map (project columns)
            (window (limit_calls q) (offset_calls q) (sort_rows (order_calls q) all))"
    by blast
  show "case order_calls q of [] \<Rightarrow> True
        | (column, desc) # _ \<Rightarrow>
            if desc then non_increasing column rows else non_decreasing column rows"
  proof (cases "order_calls q")
    case Nil
    then show ?thesis by simp
  next
    case (Cons clause clauses)
    obtain column desc where clause: "clause = (column, desc)" by (cases clause)
    show ?thesis
    proof (cases desc)
      case True
      have "non_increasing column (window (limit_calls q) (offset_calls q) (sort_rows (order_calls q) all))"
        using sort_rows_primary_desc [of column clauses all] Cons clause True
        by (simp add: non_increasing_def sorted_rev_keys_window)
      then show ?thesis
        using Cons clause True rows by (simp add: non_increasing_project)
    next
      case False
      have "non_decreasing column (window (limit_calls q) (offset_calls q) (sort_rows (order_calls q) all))"
        using sort_rows_primary_asc [of column clauses all] Cons clause False
        by (simp add: non_decreasing_def sorted_keys_window)
      then show ?thesis
        using Cons clause False rows by (simp add: non_decreasing_project)
    qed
  qed
qed

lemma operations_not_mutating:
  "\<not> mutating q \<Longrightarrow> operations q = [] \<or> (\<exists>columns ops. operations q = Select columns # ops)"
  unfolding mutating_def operations_def
proof (induction q)
  case Nil
  then show ?case by simp
next
  case (Cons c q)
  then show ?case by (cases c) auto
qed

lemma ref_read_only: "read_only ref_execute"
  unfolding read_only_def
proof (intro allI impI)
  fix q :: query and db :: tables
  assume "\<not> mutating q"
  from operations_not_mutating [OF this] show "snd (ref_execute q db) = db"
    by (auto simp: ref_execute_def split: option.splits)
qed

lemma ref_execute_read_query:
  assumes "db table = Some rows"
  shows "ref_execute (read_query table columns filters limit offset order_by) db =
     (Inr (map (project columns)
         (window (limit_calls (read_query table columns filters limit offset order_by))
            (offset_calls (read_query table columns filters limit offset order_by))
            (sort_rows (order_calls (read_query table columns filters limit offset order_by))
               (filter (matches (dict_items filters)) rows)))), db)"
  using assms
  by (simp add: ref_execute_def table_of_read_query operations_read_query eq_calls_read_query)

lemma project_star: "project ''*'' r = r"
  by (simp add: project_def selected_def)

lemma map_project_star: "map (project ''*'') rows = rows"
  by (induction rows) (simp_all add: project_star)

lemma set_sort_clause: "set (sort_clause clause rows) = set rows"
  by (cases clause) (simp add: sort_clause_def)

lemma set_sort_rows: "set (sort_rows clauses rows) = set rows"
  unfolding sort_rows_def by (induction clauses) (simp_all add: set_sort_clause)

lemma set_window: "set (window limits offsets rows) \<subseteq> set rows"
proof -
  have d: "set (case offsets of [] \<Rightarrow> rows | n # _ \<Rightarrow> drop (nat n) rows) \<subseteq> set rows"
    by (cases offsets) (simp_all add: set_drop_subset)
  have t: "set (case limits of [] \<Rightarrow> xs | n # _ \<Rightarrow> take (nat n) xs) \<subseteq> set xs" for xs :: "row list"
    by (cases limits) (simp_all add: set_take_subset)
  show ?thesis
    unfolding window_def Let_def using d t by (rule order_trans [rotated])
qed

lemma matches_iff:
  "matches constraints r \<longleftrightarrow> (\<forall>(column, v) \<in> set constraints. map_of r column = Some v)"
  by (simp add: matches_def list_all_iff)

section \<open>The claims\<close>

text \<open>
  C1. Each of the four tools returns \<open>{"error": str(e), "records": []}\<close> when the
  translator call raises \<open>e\<close>, whatever the exception, and \<open>{"records": result}\<close>
  when it returns; the session afterwards is the translator's. A tool is a total function
  into envelopes, so nothing propagates.
\<close>

theorem tools_catch_every_exception:
  fixes exec :: "'db backend"
  shows
  "(fst (SupabaseClient_read_records exec s table columns filters limit offset order_by) = Inl e \<longrightarrow>
      fst (read_records exec s table columns filters limit offset order_by) =
        [(''error'', EString (str e)), (''records'', ERecords [])])
   \<and> (fst (SupabaseClient_read_records exec s table columns filters limit offset order_by) = Inr rows \<longrightarrow>
      fst (read_records exec s table columns filters limit offset order_by) =
        [(''records'', ERecords rows)])
   \<and> (fst (SupabaseClient_create_records exec s table records) = Inl e \<longrightarrow>
      fst (create_records exec s table records) =
        [(''error'', EString (str e)), (''records'', ERecords [])])
   \<and> (fst (SupabaseClient_create_records exec s table records) = Inr rows \<longrightarrow>
      fst (create_records exec s table records) = [(''records'', ERecords rows)])
   \<and> (fst (SupabaseClient_update_records exec s table updates fs) = Inl e \<longrightarrow>
      fst (update_records exec s table updates fs) =
        [(''error'', EString (str e)), (''records'', ERecords [])])
   \<and> (fst (SupabaseClient_update_records exec s table updates fs) = Inr rows \<longrightarrow>
      fst (update_records exec s table updates fs) = [(''records'', ERecords rows)])
   \<and> (fst (SupabaseClient_delete_records exec s table fs) = Inl e \<longrightarrow>
      fst (delete_records exec s table fs) =
        [(''error'', EString (str e)), (''records'', ERecords [])])
   \<and> (fst (SupabaseClient_delete_records exec s table fs) = Inr rows \<longrightarrow>
      fst (delete_records exec s table fs) = [(''records'', ERecords rows)])
   \<and> snd (read_records exec s table columns filters limit offset order_by) =
       snd (SupabaseClient_read_records exec s table columns filters limit offset order_by)
   \<and> snd (create_records exec s table records) =
       snd (SupabaseClient_create_records exec s table records)
   \<and> snd (update_records exec s table updates fs) =
       snd (SupabaseClient_update_records exec s table updates fs)
   \<and> snd (delete_records exec s table fs) = snd (SupabaseClient_delete_records exec s table fs)"
proof -
  have r: "\<And>p. (fst p = Inl e \<longrightarrow>
             fst (case p of (Inr records, s') \<Rightarrow> ([(''records'', ERecords records)], s')
                  | (Inl x, s') \<Rightarrow> ([(''error'', EString (str x)), (''records'', ERecords [])], s'))
               = [(''error'', EString (str e)), (''records'', ERecords [])])
        \<and> (fst p = Inr rows \<longrightarrow>
             fst (case p of (Inr records, s') \<Rightarrow> ([(''records'', ERecords records)], s')
                  | (Inl x, s') \<Rightarrow> ([(''error'', EString (str x)), (''records'', ERecords [])], s'))
               = [(''records'', ERecords rows)])
        \<and> snd (case p of (Inr records, s') \<Rightarrow> ([(''records'', ERecords records)], s')
                  | (Inl x, s') \<Rightarrow> ([(''error'', EString (str x)), (''records'', ERecords [])], s'))
               = snd p"
    for e :: exn and rows :: "row list"
    by (auto split: prod.splits sum.splits)
  show ?thesis
    unfolding read_records_def create_records_def update_records_def delete_records_def
    using r [of "SupabaseClient_read_records exec s table columns filters limit offset order_by"]
      r [of "SupabaseClient_create_records exec s table records"]
      r [of "SupabaseClient_update_records exec s table updates fs"]
      r [of "SupabaseClient_delete_records exec s table fs"]
    by blast
qed

theorem tools_catch_every_exception_witness:
  "fst (read_records ref_execute demo_session ''nowhere'' ''*'' None None None None) =
     [(''error'', EString ''relation nowhere does not exist''), (''records'', ERecords [])]
   \<and> fst (create_records ref_execute demo_session ''nowhere'' (Single [(''id'', JInt 4)])) =
     [(''error'', EString ''relation nowhere does not exist''), (''records'', ERecords [])]
   \<and> fst (update_records ref_execute demo_session ''nowhere'' [(''kind'', JStr ''x'')] [(''id'', JInt 1)]) =
     [(''error'', EString ''relation nowhere does not exist''), (''records'', ERecords [])]
   \<and> fst (delete_records ref_execute demo_session ''nowhere'' [(''id'', JInt 1)]) =
     [(''error'', EString ''relation nowhere does not exist''), (''records'', ERecords [])]
   \<and> fst (read_records ref_execute demo_session ''events'' ''id'' (Some [(''kind'', JStr ''login'')]) None None None) =
     [(''records'', ERecords [[(''id'', JInt 1)], [(''id'', JInt 3)]])]
   \<and> fst (create_records ref_execute demo_session ''events'' (Single [(''id'', JInt 4)])) =
     [(''records'', ERecords [[(''id'', JInt 4)]])]
   \<and> fst (update_records ref_execute demo_session ''events'' [(''kind'', JStr ''x'')] [(''id'', JInt 1)]) =
     [(''records'', ERecords [[(''id'', JInt 1), (''kind'', JStr ''x''), (''created_at'', JStr ''2024-01-01'')]])]
   \<and> fst (delete_records ref_execute demo_session ''events'' [(''id'', JInt 1)]) =
     [(''records'', ERecords [[(''id'', JInt 1), (''kind'', JStr ''login''), (''created_at'', JStr ''2024-01-01'')]])]"
proof -
  let ?e = "Exn ''APIError'' ''relation nowhere does not exist''"
  have 1: "fst (SupabaseClient_read_records ref_execute demo_session ''nowhere'' ''*'' None None None None) = Inl ?e"
    by code_simp
  have 2: "fst (SupabaseClient_create_records ref_execute demo_session ''nowhere'' (Single [(''id'', JInt 4)])) = Inl ?e"
    by code_simp
  have 3: "fst (SupabaseClient_update_records ref_execute demo_session ''nowhere'' [(''kind'', JStr ''x'')] [(''id'', JInt 1)]) = Inl ?e"
    by code_simp
  have 4: "fst (SupabaseClient_delete_records ref_execute demo_session ''nowhere'' [(''id'', JInt 1)]) = Inl ?e"
    by code_simp
  have 5: "fst (SupabaseClient_read_records ref_execute demo_session ''events'' ''id'' (Some [(''kind'', JStr ''login'')]) None None None)
      = Inr [[(''id'', JInt 1)], [(''id'', JInt 3)]]"
    by code_simp
  have 6: "fst (SupabaseClient_create_records ref_execute demo_session ''events'' (Single [(''id'', JInt 4)])) = Inr [[(''id'', JInt 4)]]"
    by code_simp
  have 7: "fst (SupabaseClient_update_records ref_execute demo_session ''events'' [(''kind'', JStr ''x'')] [(''id'', JInt 1)])
      = Inr [[(''id'', JInt 1), (''kind'', JStr ''x''), (''created_at'', JStr ''2024-01-01'')]]"
    by code_simp
  have 8: "fst (SupabaseClient_delete_records ref_execute demo_session ''events'' [(''id'', JInt 1)])
      = Inr [[(''id'', JInt 1), (''kind'', JStr ''login''), (''created_at'', JStr ''2024-01-01'')]]"
    by code_simp
  have a: "str ?e = ''relation nowhere does not exist''" by simp
  show ?thesis
    using tools_catch_every_exception [where exec = ref_execute and s = demo_session
        and table = "''nowhere''" and columns = "''*''" and filters = None and limit = None
        and offset = None and order_by = None and e = ?e and records = "Single [(''id'', JInt 4)]"
        and updates = "[(''kind'', JStr ''x'')]" and fs = "[(''id'', JInt 1)]"]
      tools_catch_every_exception [where exec = ref_execute and s = demo_session
        and table = "''events''" and columns = "''id''"
        and filters = "Some [(''kind'', JStr ''login'')]" and limit = None
        and offset = None and order_by = None and rows = "[[(''id'', JInt 1)], [(''id'', JInt 3)]]"]
      tools_catch_every_exception [where exec = ref_execute and s = demo_session
        and table = "''events''" and records = "Single [(''id'', JInt 4)]"
        and rows = "[[(''id'', JInt 4)]]"]
      tools_catch_every_exception [where exec = ref_execute and s = demo_session
        and table = "''events''" and updates = "[(''kind'', JStr ''x'')]"
        and fs = "[(''id'', JInt 1)]"
        and rows = "[[(''id'', JInt 1), (''kind'', JStr ''x''), (''created_at'', JStr ''2024-01-01'')]]"]
      tools_catch_every_exception [where exec = ref_execute and s = demo_session
        and table = "''events''" and fs = "[(''id'', JInt 1)]"
        and rows = "[[(''id'', JInt 1), (''kind'', JStr ''login''), (''created_at'', JStr ''2024-01-01'')]]"]
      1 2 3 4 5 6 7 8 a
    by (simp only: simp_thms)
qed

text \<open>
  C2. A limit of \<open>0\<close> is dropped: the composed query is the one composed without a
  limit, and the reference backend then returns every row where a limit of \<open>0\<close> would
  return none. An offset of \<open>0\<close> is dropped in the same way.
\<close>

theorem limit_zero_is_treated_as_absent:
  "read_query table columns filters (Some 0) offset order_by =
     read_query table columns filters None offset order_by
   \<and> read_query table columns filters limit (Some 0) order_by =
     read_query table columns filters limit None order_by
   \<and> read_query ''events'' ''*'' None (Some 0) None None = [Table ''events'', Select ''*'']
   \<and> fst (SupabaseClient_read_records ref_execute demo_session ''events'' ''*'' None (Some 0) None None)
       = Inr events
   \<and> length events = 3
   \<and> fst (ref_execute [Table ''events'', Select ''*'', Limit 0] demo_tables) = Inr []"
proof -
  have "fst (SupabaseClient_read_records ref_execute demo_session ''events'' ''*'' None (Some 0) None None)
       = Inr events"
    by code_simp
  moreover have "fst (ref_execute [Table ''events'', Select ''*'', Limit 0] demo_tables) = Inr []"
    by code_simp
  moreover have "length events = 3" by (simp add: events_def)
  ultimately show ?thesis
    by (simp add: read_query_shape)
qed

text \<open>
  C3. In a read, the sort clauses of the composed query are one per entry of
  \<open>order_by\<close>, in the mapping's iteration order: ascending when the direction lowers to
  \<open>"asc"\<close> (that is, when it is \<open>asc\<close> in any mix of cases), descending for every other
  string. Without \<open>order_by\<close> there is no sort clause.
\<close>

theorem order_by_gives_one_clause_per_entry:
  "order_calls (read_query table columns filters limit offset (Some ob)) =
     map (\<lambda>(column, direction).
            if lower direction = ''asc'' then (column, False) else (column, True)) ob
   \<and> order_calls (read_query table columns filters limit offset None) = []
   \<and> (lower d = ''asc'') =
       (d \<in> {''asc'', ''asC'', ''aSc'', ''aSC'', ''Asc'', ''AsC'', ''ASc'', ''ASC''})"
proof -
  have "map (\<lambda>(column, direction). (column, lower direction \<noteq> ''asc'')) ob =
        map (\<lambda>(column, direction).
               if lower direction = ''asc'' then (column, False) else (column, True)) ob"
    by (induction ob) auto
  then show ?thesis
    using lower_eq_asc [of d] by (simp add: order_calls_read_query)
qed

theorem order_by_gives_one_clause_per_entry_witness:
  "order_calls (read_query ''events'' ''*'' None (Some 10) None
      (Some [(''kind'', ''ASC''), (''created_at'', ''desc''), (''id'', ''upwards'')])) =
     [(''kind'', False), (''created_at'', True), (''id'', True)]"
proof -
  have "lower ''ASC'' = ''asc''" "lower ''desc'' \<noteq> ''asc''" "lower ''upwards'' \<noteq> ''asc''"
    by code_simp+
  then show ?thesis
    using order_by_gives_one_clause_per_entry [of "''events''" "''*''" None "Some 10" None
        "[(''kind'', ''ASC''), (''created_at'', ''desc''), (''id'', ''upwards'')]"]
    by simp
qed

text \<open>
  C4, as the spec states it, fails: a direction other than \<open>asc\<close> composes a descending
  clause. With \<open>{"created_at": "ascending"}\<close> the clause is descending, and the reference
  backend returns the three example rows newest first, which is not non-decreasing.
\<close>

theorem other_direction_is_descending:
  "order_calls (read_query ''events'' ''*'' None None None (Some [(''created_at'', ''ascending'')])) =
     [(''created_at'', True)]
   \<and> fst (SupabaseClient_read_records ref_execute demo_session ''events'' ''*'' None None None
            (Some [(''created_at'', ''ascending'')])) = Inr (rev events)
   \<and> \<not> non_decreasing ''created_at'' (rev events)"
proof -
  have "order_calls (read_query ''events'' ''*'' None None None (Some [(''created_at'', ''ascending'')])) =
     [(''created_at'', True)]"
    by code_simp
  moreover have "fst (SupabaseClient_read_records ref_execute demo_session ''events'' ''*'' None None None
            (Some [(''created_at'', ''ascending'')])) = Inr (rev events)"
    by code_simp
  moreover have "\<not> non_decreasing ''created_at'' (rev events)"
    by code_simp
  ultimately show ?thesis by simp
qed

text \<open>
  C4, amended. For every backend that returns the rows of a select in the order its first
  sort clause asks for, a read with \<open>order_by = {"created_at": d}\<close> returns rows in
  non-decreasing \<open>created_at\<close> order when \<open>d\<close> lowers to \<open>"asc"\<close>, and in non-increasing
  \<open>created_at\<close> order for every other string \<open>d\<close>, \<open>"desc"\<close> among them.
\<close>

theorem created_at_order_follows_direction:
  fixes exec :: "'db backend"
  assumes "honours_order exec"
    and "fst (SupabaseClient_read_records exec s table columns filters limit offset
               (Some [(''created_at'', d)])) = Inr rows"
  shows "(lower d = ''asc'' \<longrightarrow> non_decreasing ''created_at'' rows)
       \<and> (lower d \<noteq> ''asc'' \<longrightarrow> non_increasing ''created_at'' rows)
       \<and> (d = ''desc'' \<longrightarrow> non_increasing ''created_at'' rows)"
proof -
  let ?q = "read_query table columns filters limit offset (Some [(''created_at'', d)])"
  obtain db' where ex: "exec ?q (store s) = (Inr rows, db')"
    using assms(2)
    by (auto simp: SupabaseClient_read_records_def execute_def split: prod.splits)
  have sel: "select_query ?q"
    by (simp add: select_query_def operations_read_query)
  have oc: "order_calls ?q = [(''created_at'', lower d \<noteq> ''asc'')]"
    by (simp add: order_calls_read_query)
  have "if lower d \<noteq> ''asc'' then non_increasing ''created_at'' rows
        else non_decreasing ''created_at'' rows"
    using assms(1) sel ex oc unfolding honours_order_def by fastforce
  moreover have "lower ''desc'' \<noteq> ''asc''" by code_simp
  ultimately show ?thesis by auto
qed

theorem created_at_order_follows_direction_witness:
  "honours_order ref_execute
   \<and> fst (SupabaseClient_read_records ref_execute demo_session ''events'' ''*'' None None None
            (Some [(''created_at'', ''desc'')])) = Inr (rev events)
   \<and> non_increasing ''created_at'' (rev events)
   \<and> fst (SupabaseClient_read_records ref_execute demo_session ''events'' ''*'' None None None
            (Some [(''created_at'', ''Asc'')])) = Inr events
   \<and> non_decreasing ''created_at'' events"
proof -
  have 1: "fst (SupabaseClient_read_records ref_execute demo_session ''events'' ''*'' None None None
            (Some [(''created_at'', ''desc'')])) = Inr (rev events)"
    by code_simp
  have 2: "fst (SupabaseClient_read_records ref_execute demo_session ''events'' ''*'' None None None
            (Some [(''created_at'', ''Asc'')])) = Inr events"
    by code_simp
  have 3: "lower ''Asc'' = ''asc''" by code_simp
  show ?thesis
    using created_at_order_follows_direction [OF ref_honours_order 1]
      created_at_order_follows_direction [OF ref_honours_order 2]
      ref_honours_order 1 2 3
    by simp
qed

text \<open>
  C5. With an empty filter mapping the update and delete queries hold the table and the
  operation and no equality constraint, and the translator hands them to the backend as
  they are: its outcome is the backend's, for every backend. On the reference backend the
  update then changes, and the delete removes, every row of the table, and the tool returns
  those rows.
\<close>

theorem empty_filters_reach_every_row:
  fixes exec :: "'db backend"
  shows
  "update_query table updates [] = [Table table, Update updates]
   \<and> delete_query table [] = [Table table, Delete]
   \<and> eq_calls (update_query table updates []) = []
   \<and> eq_calls (delete_query table []) = []
   \<and> SupabaseClient_update_records exec s table updates [] =
       execute exec [Table table, Update updates] s
   \<and> SupabaseClient_delete_records exec s table [] = execute exec [Table table, Delete] s
   \<and> (store s' table = Some rows \<longrightarrow>
        fst (SupabaseClient_update_records ref_execute s' table updates []) =
          Inr (map (apply_updates updates) rows)
        \<and> store (snd (SupabaseClient_update_records ref_execute s' table updates [])) table =
          Some (map (apply_updates updates) rows)
        \<and> fst (SupabaseClient_delete_records ref_execute s' table []) = Inr rows
        \<and> store (snd (SupabaseClient_delete_records ref_execute s' table [])) table = Some []
        \<and> fst (update_records ref_execute s' table updates []) =
          [(''records'', ERecords (map (apply_updates updates) rows))]
        \<and> fst (delete_records ref_execute s' table []) = [(''records'', ERecords rows)])"
proof -
  have u: "update_query table updates [] = [Table table, Update updates]"
    by (simp add: update_query_def qb_update_def qb_table_def)
  have d: "delete_query table [] = [Table table, Delete]"
    by (simp add: delete_query_def qb_delete_def qb_table_def)
  have r: "store s' table = Some rows \<longrightarrow>
        fst (SupabaseClient_update_records ref_execute s' table updates []) =
          Inr (map (apply_updates updates) rows)
        \<and> store (snd (SupabaseClient_update_records ref_execute s' table updates [])) table =
          Some (map (apply_updates updates) rows)
        \<and> fst (SupabaseClient_delete_records ref_execute s' table []) = Inr rows
        \<and> store (snd (SupabaseClient_delete_records ref_execute s' table [])) table = Some []
        \<and> fst (update_records ref_execute s' table updates []) =
          [(''records'', ERecords (map (apply_updates updates) rows))]
        \<and> fst (delete_records ref_execute s' table []) = [(''records'', ERecords rows)]"
    by (simp add: update_records_def delete_records_def
        SupabaseClient_update_records_def SupabaseClient_delete_records_def u d
        execute_def ref_execute_def operations_def matches_def)
  show ?thesis
    using r by (simp add: SupabaseClient_update_records_def SupabaseClient_delete_records_def u d)
qed

theorem empty_filters_reach_every_row_witness:
  "store demo_session ''events'' = Some events
   \<and> fst (SupabaseClient_update_records ref_execute demo_session ''events'' [(''kind'', JStr ''x'')] []) =
       Inr [[(''id'', JInt 1), (''kind'', JStr ''x''), (''created_at'', JStr ''2024-01-01'')],
            [(''id'', JInt 2), (''kind'', JStr ''x''), (''created_at'', JStr ''2024-01-02'')],
            [(''id'', JInt 3), (''kind'', JStr ''x''), (''created_at'', JStr ''2024-01-03'')]]
   \<and> fst (SupabaseClient_delete_records ref_execute demo_session ''events'' []) = Inr events
   \<and> store (snd (SupabaseClient_delete_records ref_execute demo_session ''events'' [])) ''events''
       = Some []"
proof -
  have st: "store demo_session ''events'' = Some events"
    by (simp add: demo_session_def demo_tables_def)
  have m: "map (apply_updates [(''kind'', JStr ''x'')]) events =
       [[(''id'', JInt 1), (''kind'', JStr ''x''), (''created_at'', JStr ''2024-01-01'')],
        [(''id'', JInt 2), (''kind'', JStr ''x''), (''created_at'', JStr ''2024-01-02'')],
        [(''id'', JInt 3), (''kind'', JStr ''x''), (''created_at'', JStr ''2024-01-03'')]]"
    by (simp add: events_def apply_updates_def)
  from empty_filters_reach_every_row [of "''events''" "[(''kind'', JStr ''x'')]" ref_execute
      demo_session demo_session events] st
  have "fst (SupabaseClient_update_records ref_execute demo_session ''events'' [(''kind'', JStr ''x'')] []) =
          Inr (map (apply_updates [(''kind'', JStr ''x'')]) events)
        \<and> fst (SupabaseClient_delete_records ref_execute demo_session ''events'' []) = Inr events
        \<and> store (snd (SupabaseClient_delete_records ref_execute demo_session ''events'' [])) ''events''
          = Some []"
    by blast
  then show ?thesis using st m by simp
qed

text \<open>
  C6. In a read, the equality constraints of the composed query are the entries of
  \<open>filters\<close>, one each and in the mapping's iteration order; the query holds nothing
  else but the table, the select, the sort clauses and the limit and offset, so no other
  kind of condition is sent. On the reference backend the rows returned are the rows of
  the table that satisfy every one of the constraints: exactly those, in table order, when
  all columns are selected and no order, limit or offset is given, and in general
  projections of some of them.
\<close>

theorem filters_become_conjoined_equalities:
  "eq_calls (read_query table columns (Some fs) limit offset order_by) = fs
   \<and> read_query table columns (Some fs) limit offset order_by =
       [Table table, Select columns]
       @ map (\<lambda>(column, v). Eq column v) fs
       @ map (\<lambda>(column, direction). Order column (lower direction \<noteq> ''asc'')) (dict_items order_by)
       @ (case limit of None \<Rightarrow> [] | Some n \<Rightarrow> if n = 0 then [] else [Limit n])
       @ (case offset of None \<Rightarrow> [] | Some n \<Rightarrow> if n = 0 then [] else [Offset n])
   \<and> (store s table = Some rows \<longrightarrow>
        fst (SupabaseClient_read_records ref_execute s table ''*'' (Some fs) None None None) =
          Inr (filter (\<lambda>r. \<forall>(column, v) \<in> set fs. map_of r column = Some v) rows))
   \<and> (store s table = Some rows \<longrightarrow>
        (\<exists>found. fst (SupabaseClient_read_records ref_execute s table columns (Some fs) limit
                        offset order_by) = Inr (map (project columns) found)
           \<and> set found \<subseteq> {r \<in> set rows. \<forall>(column, v) \<in> set fs. map_of r column = Some v}))"
proof -
  have m: "matches fs = (\<lambda>r. \<forall>(column, v) \<in> set fs. map_of r column = Some v)"
    by (rule ext) (rule matches_iff)
  have 1: "store s table = Some rows \<Longrightarrow>
        fst (SupabaseClient_read_records ref_execute s table ''*'' (Some fs) None None None) =
          Inr (filter (\<lambda>r. \<forall>(column, v) \<in> set fs. map_of r column = Some v) rows)"
    by (simp add: SupabaseClient_read_records_def execute_def ref_execute_read_query
        limit_calls_read_query offset_calls_read_query order_calls_read_query
        window_def sort_rows_def map_project_star m)
  have 2: "\<exists>found. fst (SupabaseClient_read_records ref_execute s table columns (Some fs) limit
                        offset order_by) = Inr (map (project columns) found)
           \<and> set found \<subseteq> {r \<in> set rows. \<forall>(column, v) \<in> set fs. map_of r column = Some v}"
    if "store s table = Some rows"
  proof -
    let ?q = "read_query table columns (Some fs) limit offset order_by"
    let ?found = "window (limit_calls ?q) (offset_calls ?q)
                    (sort_rows (order_calls ?q) (filter (matches fs) rows))"
    have "fst (SupabaseClient_read_records ref_execute s table columns (Some fs) limit
                        offset order_by) = Inr (map (project columns) ?found)"
      using that
      by (simp add: SupabaseClient_read_records_def execute_def ref_execute_read_query)
    moreover have "set ?found \<subseteq> set (filter (matches fs) rows)"
      using set_window [of "limit_calls ?q" "offset_calls ?q"
          "sort_rows (order_calls ?q) (filter (matches fs) rows)"]
      by (simp only: set_sort_rows)
    then have "set ?found \<subseteq> {r \<in> set rows. \<forall>(column, v) \<in> set fs. map_of r column = Some v}"
      by (simp add: m)
    ultimately show ?thesis by blast
  qed
  have 0: "eq_calls (read_query table columns (Some fs) limit offset order_by) = fs"
    by (simp add: eq_calls_read_query)
  have 3: "read_query table columns (Some fs) limit offset order_by =
       [Table table, Select columns]
       @ map (\<lambda>(column, v). Eq column v) fs
       @ map (\<lambda>(column, direction). Order column (lower direction \<noteq> ''asc'')) (dict_items order_by)
       @ (case limit of None \<Rightarrow> [] | Some n \<Rightarrow> if n = 0 then [] else [Limit n])
       @ (case offset of None \<Rightarrow> [] | Some n \<Rightarrow> if n = 0 then [] else [Offset n])"
    using read_query_shape [of table columns "Some fs" limit offset order_by] by simp
  show ?thesis
    by (rule conjI [OF 0 conjI [OF 3 conjI [OF impI [OF 1] impI [OF 2]]]])
qed

theorem filters_become_conjoined_equalities_witness:
  "store demo_session ''events'' = Some events
   \<and> fst (SupabaseClient_read_records ref_execute demo_session ''events'' ''*''
        (Some [(''kind'', JStr ''login''), (''id'', JInt 3)]) None None None) =
       Inr [[(''id'', JInt 3), (''kind'', JStr ''login''), (''created_at'', JStr ''2024-01-03'')]]
   \<and> eq_calls (read_query ''events'' ''*'' (Some [(''kind'', JStr ''login''), (''id'', JInt 3)])
        None None None) = [(''kind'', JStr ''login''), (''id'', JInt 3)]"
proof -
  have st: "store demo_session ''events'' = Some events"
    by (simp add: demo_session_def demo_tables_def)
  have f: "filter (\<lambda>r. \<forall>(column, v) \<in> set [(''kind'', JStr ''login''), (''id'', JInt 3)].
                      map_of r column = Some v) events =
           [[(''id'', JInt 3), (''kind'', JStr ''login''), (''created_at'', JStr ''2024-01-03'')]]"
    by (simp add: events_def)
  note t = filters_become_conjoined_equalities [of "''events''" "''*''"
      "[(''kind'', JStr ''login''), (''id'', JInt 3)]" None None None demo_session events]
  from t have "eq_calls (read_query ''events'' ''*'' (Some [(''kind'', JStr ''login''), (''id'', JInt 3)])
        None None None) = [(''kind'', JStr ''login''), (''id'', JInt 3)]"
    by (rule conjunct1)
  moreover from t st have "fst (SupabaseClient_read_records ref_execute demo_session ''events'' ''*''
        (Some [(''kind'', JStr ''login''), (''id'', JInt 3)]) None None None) =
       Inr (filter (\<lambda>r. \<forall>(column, v) \<in> set [(''kind'', JStr ''login''), (''id'', JInt 3)].
                      map_of r column = Some v) events)"
    by blast
  ultimately show ?thesis using st f by simp
qed

text \<open>
  C7. A create sends the payload to the backend unchanged, in one insert, and returns the
  backend's response unchanged. On the reference backend, whose insert returns the rows it
  inserted, a create that succeeds returns one row for a single record and \<open>N\<close> rows for a
  sequence of \<open>N\<close> records, from the translator and in the tool's envelope alike.
\<close>

theorem create_returns_one_row_per_record:
  fixes exec :: "'db backend"
  shows
  "SupabaseClient_create_records exec s table records =
     execute exec [Table table, Insert records] s
   \<and> (fst (SupabaseClient_create_records ref_execute s' table (Single r)) = Inr created \<longrightarrow>
        length created = 1)
   \<and> (fst (SupabaseClient_create_records ref_execute s' table (Batch rs)) = Inr created \<longrightarrow>
        length created = length rs)
   \<and> (fst (create_records ref_execute s' table (Single r)) = [(''records'', ERecords created)] \<longrightarrow>
        length created = 1)
   \<and> (fst (create_records ref_execute s' table (Batch rs)) = [(''records'', ERecords created)] \<longrightarrow>
        length created = length rs)"
proof -
  have q: "create_query table p = [Table table, Insert p]" for p
    by (simp add: create_query_def qb_insert_def qb_table_def)
  have t: "fst (SupabaseClient_create_records ref_execute s' table p) = Inr created \<longrightarrow>
           created = payload_rows p" for p
    by (auto simp: SupabaseClient_create_records_def q execute_def ref_execute_def operations_def
        split: option.splits)
  have e: "fst (create_records ref_execute s' table p) = [(''records'', ERecords created)] \<longrightarrow>
           fst (SupabaseClient_create_records ref_execute s' table p) = Inr created" for p
    by (auto simp: create_records_def split: prod.splits sum.splits)
  have c: "SupabaseClient_create_records exec s table records =
     execute exec [Table table, Insert records] s"
    by (simp add: SupabaseClient_create_records_def q)
  have s1: "fst (SupabaseClient_create_records ref_execute s' table (Single r)) = Inr created \<longrightarrow>
        length created = 1"
    using t [of "Single r"] by auto
  have sn: "fst (SupabaseClient_create_records ref_execute s' table (Batch rs)) = Inr created \<longrightarrow>
        length created = length rs"
    using t [of "Batch rs"] by auto
  have e1: "fst (create_records ref_execute s' table (Single r)) = [(''records'', ERecords created)] \<longrightarrow>
        length created = 1"
    using e [of "Single r"] s1 by blast
  have en: "fst (create_records ref_execute s' table (Batch rs)) = [(''records'', ERecords created)] \<longrightarrow>
        length created = length rs"
    using e [of "Batch rs"] sn by blast
  show ?thesis
    by (rule conjI [OF c conjI [OF s1 conjI [OF sn conjI [OF e1 en]]]])
qed

theorem create_returns_one_row_per_record_witness:
  "fst (SupabaseClient_create_records ref_execute demo_session ''events''
         (Single [(''id'', JInt 4), (''kind'', JStr ''login'')])) =
     Inr [[(''id'', JInt 4), (''kind'', JStr ''login'')]]
   \<and> fst (create_records ref_execute demo_session ''events''
         (Batch [[(''id'', JInt 4)], [(''id'', JInt 5)], [(''id'', JInt 6)]])) =
     [(''records'', ERecords [[(''id'', JInt 4)], [(''id'', JInt 5)], [(''id'', JInt 6)]])]
   \<and> length [[(''id'', JInt 4), (''kind'', JStr ''login'')]] = 1
   \<and> length [[(''id'', JInt 4)], [(''id'', JInt 5)], [(''id'', JInt 6)]] = 3"
proof -
  have 1: "fst (SupabaseClient_create_records ref_execute demo_session ''events''
         (Single [(''id'', JInt 4), (''kind'', JStr ''login'')])) =
     Inr [[(''id'', JInt 4), (''kind'', JStr ''login'')]]"
    by code_simp
  have 2: "fst (create_records ref_execute demo_session ''events''
         (Batch [[(''id'', JInt 4)], [(''id'', JInt 5)], [(''id'', JInt 6)]])) =
     [(''records'', ERecords [[(''id'', JInt 4)], [(''id'', JInt 5)], [(''id'', JInt 6)]])]"
    by code_simp
  from create_returns_one_row_per_record [where s' = demo_session and table = "''events''"
      and r = "[(''id'', JInt 4), (''kind'', JStr ''login'')]"
      and created = "[[(''id'', JInt 4), (''kind'', JStr ''login'')]]"] 1
  have 3: "length [[(''id'', JInt 4), (''kind'', JStr ''login'')]] = 1"
    by blast
  from create_returns_one_row_per_record [where s' = demo_session and table = "''events''"
      and rs = "[[(''id'', JInt 4)], [(''id'', JInt 5)], [(''id'', JInt 6)]]"
      and created = "[[(''id'', JInt 4)], [(''id'', JInt 5)], [(''id'', JInt 6)]]"] 2
  have 4: "length [[(''id'', JInt 4)], [(''id'', JInt 5)], [(''id'', JInt 6)]] = 3"
    by simp
  show ?thesis using 1 2 3 4 by (intro conjI)
qed

text \<open>
  C8, as the spec states it, fails in its second half: with both variables set and not
  empty the constructor goes on to call the SDK's \<open>create_client\<close>, outside any \<open>try\<close>,
  and when that call raises, construction raises too, the exception leaves the server
  module, and no tool has been registered.
\<close>

theorem present_credentials_do_not_ensure_startup:
  "truthy_str (demo_environ ''SUPABASE_URL'')
   \<and> truthy_str (demo_environ ''SUPABASE_SERVICE_ROLE_KEY'')
   \<and> SupabaseClient_init rejecting_create_client demo_environ =
       Inl (Exn ''SupabaseException'' ''Invalid URL'')
   \<and> server_import rejecting_create_client demo_environ =
       (Some (Exn ''SupabaseException'' ''Invalid URL''), \<lparr>registered = [], supabase = None\<rparr>)"
  by (simp add: SupabaseClient_init_def server_import_def demo_environ_def
      rejecting_create_client_def)

text \<open>
  C8, amended. When \<open>SUPABASE_URL\<close> or \<open>SUPABASE_SERVICE_ROLE_KEY\<close> is not set or is
  the empty string, the constructor raises the \<open>ValueError\<close>, it leaves the server module
  uncaught, and no tool has been registered. When both are set and not empty, the
  constructor raises nothing of its own: construction succeeds exactly when the SDK's
  \<open>create_client\<close> returns a client, and then the four tools are registered; an
  exception raised by \<open>create_client\<close> is not caught either and leaves the module in the
  same way, with no tool registered.
\<close>

theorem missing_credentials_abort_startup:
  fixes create_client :: "string \<Rightarrow> string \<Rightarrow> exn + 'c"
  shows
  "(\<not> truthy_str (environ ''SUPABASE_URL'') \<or> \<not> truthy_str (environ ''SUPABASE_SERVICE_ROLE_KEY'') \<longrightarrow>
      SupabaseClient_init create_client environ = Inl missing_credentials
      \<and> server_import create_client environ =
          (Some missing_credentials, \<lparr>registered = [], supabase = None\<rparr>))
   \<and> (environ ''SUPABASE_URL'' = Some u \<and> u \<noteq> [] \<and>
      environ ''SUPABASE_SERVICE_ROLE_KEY'' = Some k \<and> k \<noteq> [] \<and> create_client u k = Inr c \<longrightarrow>
      SupabaseClient_init create_client environ = Inr \<lparr>url = u, key = k, client = c\<rparr>
      \<and> server_import create_client environ =
          (None, \<lparr>registered = [''read_records'', ''create_records'', ''update_records'',
                                ''delete_records''],
                   supabase = Some \<lparr>url = u, key = k, client = c\<rparr>\<rparr>))
   \<and> (environ ''SUPABASE_URL'' = Some u \<and> u \<noteq> [] \<and>
      environ ''SUPABASE_SERVICE_ROLE_KEY'' = Some k \<and> k \<noteq> [] \<and> create_client u k = Inl e \<longrightarrow>
      SupabaseClient_init create_client environ = Inl e
      \<and> server_import create_client environ = (Some e, \<lparr>registered = [], supabase = None\<rparr>))"
  by (simp add: SupabaseClient_init_def server_import_def Let_def)

theorem missing_credentials_abort_startup_witness:
  "server_import demo_create_client (\<lambda>name. None) =
     (Some missing_credentials, \<lparr>registered = [], supabase = None\<rparr>)
   \<and> server_import demo_create_client empty_key_environ =
     (Some missing_credentials, \<lparr>registered = [], supabase = None\<rparr>)
   \<and> server_import demo_create_client demo_environ =
     (None, \<lparr>registered = [''read_records'', ''create_records'', ''update_records'',
                           ''delete_records''],
              supabase = Some \<lparr>url = ''https://demo.supabase.co'', key = ''service-role-secret'',
                                client = (''https://demo.supabase.co'', ''service-role-secret'')\<rparr>\<rparr>)
   \<and> SupabaseClient_init rejecting_create_client demo_environ =
       Inl (Exn ''SupabaseException'' ''Invalid URL'')"
proof -
  have 1: "server_import demo_create_client (\<lambda>name. None) =
     (Some missing_credentials, \<lparr>registered = [], supabase = None\<rparr>)"
    using missing_credentials_abort_startup [where environ = "\<lambda>name. None" and create_client = demo_create_client] by simp
  have 2: "server_import demo_create_client empty_key_environ =
     (Some missing_credentials, \<lparr>registered = [], supabase = None\<rparr>)"
    using missing_credentials_abort_startup [where environ = empty_key_environ and create_client = demo_create_client]
    by (simp add: empty_key_environ_def)
  have 3: "server_import demo_create_client demo_environ =
     (None, \<lparr>registered = [''read_records'', ''create_records'', ''update_records'',
                           ''delete_records''],
              supabase = Some \<lparr>url = ''https://demo.supabase.co'', key = ''service-role-secret'',
                                client = (''https://demo.supabase.co'', ''service-role-secret'')\<rparr>\<rparr>)"
    using missing_credentials_abort_startup [where environ = demo_environ
        and u = "''https://demo.supabase.co''" and k = "''service-role-secret''"
        and create_client = demo_create_client
        and c = "(''https://demo.supabase.co'', ''service-role-secret'')"]
    by (simp add: demo_environ_def demo_create_client_def)
  have 4: "SupabaseClient_init rejecting_create_client demo_environ =
       Inl (Exn ''SupabaseException'' ''Invalid URL'')"
    using missing_credentials_abort_startup [where environ = demo_environ
        and u = "''https://demo.supabase.co''" and k = "''service-role-secret''"
        and create_client = rejecting_create_client
        and e = "Exn ''SupabaseException'' ''Invalid URL''"]
    by (simp add: demo_environ_def rejecting_create_client_def)
  show ?thesis by (rule conjI [OF 1 conjI [OF 2 conjI [OF 3 4]]])
qed

text \<open>
  C9. A read executes exactly one query: the session afterwards has that one query added
  to its log, and the value returned is the backend's response to it, unchanged. The query
  has one operation call, the select, and no insert, update or delete call. A backend that
  leaves its state alone on a query without such a call is in the same state afterwards.
\<close>

theorem read_executes_one_select:
  fixes exec :: "'db backend"
  shows
  "SupabaseClient_read_records exec s table columns filters limit offset order_by =
     (fst (exec (read_query table columns filters limit offset order_by) (store s)),
      s\<lparr>store := snd (exec (read_query table columns filters limit offset order_by) (store s)),
        requests := requests s @ [read_query table columns filters limit offset order_by]\<rparr>)
   \<and> operations (read_query table columns filters limit offset order_by) = [Select columns]
   \<and> \<not> mutating (read_query table columns filters limit offset order_by)
   \<and> (read_only exec \<longrightarrow>
        store (snd (SupabaseClient_read_records exec s table columns filters limit offset order_by))
          = store s)"
proof -
  let ?q = "read_query table columns filters limit offset order_by"
  have 1: "SupabaseClient_read_records exec s table columns filters limit offset order_by =
     (fst (exec ?q (store s)), s\<lparr>store := snd (exec ?q (store s)), requests := requests s @ [?q]\<rparr>)"
    by (simp add: SupabaseClient_read_records_def execute_def split: prod.splits)
  have 2: "read_only exec \<longrightarrow> snd (exec ?q (store s)) = store s"
    using not_mutating_read_query [of table columns filters limit offset order_by]
    unfolding read_only_def by blast
  show ?thesis
    using 2 by (simp add: 1 operations_read_query not_mutating_read_query)
qed

theorem read_executes_one_select_witness:
  "read_only ref_execute
   \<and> store (snd (SupabaseClient_read_records ref_execute demo_session ''events'' ''id''
        (Some [(''kind'', JStr ''login'')]) (Some 1) (Some 1) (Some [(''id'', ''desc'')])))
       = demo_tables
   \<and> requests (snd (SupabaseClient_read_records ref_execute demo_session ''events'' ''id''
        (Some [(''kind'', JStr ''login'')]) (Some 1) (Some 1) (Some [(''id'', ''desc'')])))
       = [[Table ''events'', Select ''id'', Eq ''kind'' (JStr ''login''), Order ''id'' True,
           Limit 1, Offset 1]]
   \<and> fst (SupabaseClient_read_records ref_execute demo_session ''events'' ''id''
        (Some [(''kind'', JStr ''login'')]) (Some 1) (Some 1) (Some [(''id'', ''desc'')]))
       = Inr [[(''id'', JInt 1)]]"
proof -
  have 1: "read_query ''events'' ''id'' (Some [(''kind'', JStr ''login'')]) (Some 1) (Some 1)
             (Some [(''id'', ''desc'')]) =
           [Table ''events'', Select ''id'', Eq ''kind'' (JStr ''login''), Order ''id'' True,
            Limit 1, Offset 1]"
    by code_simp
  have 2: "fst (ref_execute [Table ''events'', Select ''id'', Eq ''kind'' (JStr ''login''),
             Order ''id'' True, Limit 1, Offset 1] demo_tables) = Inr [[(''id'', JInt 1)]]"
    by code_simp
  have 3: "store demo_session = demo_tables" "requests demo_session = []"
    by (simp_all add: demo_session_def)
  note t = read_executes_one_select [of ref_execute demo_session "''events''" "''id''"
        "Some [(''kind'', JStr ''login'')]" "Some 1" "Some 1" "Some [(''id'', ''desc'')]"]
  from t have
    "read_only ref_execute \<longrightarrow>
     store (snd (SupabaseClient_read_records ref_execute demo_session ''events'' ''id''
        (Some [(''kind'', JStr ''login'')]) (Some 1) (Some 1) (Some [(''id'', ''desc'')])))
       = store demo_session"
    by blast
  with ref_read_only 3 have st:
    "store (snd (SupabaseClient_read_records ref_execute demo_session ''events'' ''id''
        (Some [(''kind'', JStr ''login'')]) (Some 1) (Some 1) (Some [(''id'', ''desc'')])))
       = demo_tables"
    by simp
  from t have
    "SupabaseClient_read_records ref_execute demo_session ''events'' ''id''
        (Some [(''kind'', JStr ''login'')]) (Some 1) (Some 1) (Some [(''id'', ''desc'')]) =
     (fst (ref_execute (read_query ''events'' ''id'' (Some [(''kind'', JStr ''login'')]) (Some 1)
             (Some 1) (Some [(''id'', ''desc'')])) (store demo_session)),
      demo_session\<lparr>store := snd (ref_execute (read_query ''events'' ''id''
             (Some [(''kind'', JStr ''login'')]) (Some 1) (Some 1) (Some [(''id'', ''desc'')]))
             (store demo_session)),
        requests := requests demo_session @ [read_query ''events'' ''id''
             (Some [(''kind'', JStr ''login'')]) (Some 1) (Some 1) (Some [(''id'', ''desc'')])]\<rparr>)"
    by (rule conjunct1)
  then have rest:
    "requests (snd (SupabaseClient_read_records ref_execute demo_session ''events'' ''id''
        (Some [(''kind'', JStr ''login'')]) (Some 1) (Some 1) (Some [(''id'', ''desc'')])))
       = [[Table ''events'', Select ''id'', Eq ''kind'' (JStr ''login''), Order ''id'' True,
           Limit 1, Offset 1]]"
    "fst (SupabaseClient_read_records ref_execute demo_session ''events'' ''id''
        (Some [(''kind'', JStr ''login'')]) (Some 1) (Some 1) (Some [(''id'', ''desc'')]))
       = Inr [[(''id'', JInt 1)]]"
    using 1 2 3 by simp_all
  show ?thesis
    using ref_read_only st rest by (simp only: simp_thms)
qed

text \<open>
  C10. The value each tool returns is a dictionary (no key occurs twice) whose key
  \<open>"records"\<close> is bound to a list, and which has the key \<open>"error"\<close> exactly when the
  translator call raised.
\<close>

theorem envelope_has_records_and_error_iff_raised:
  fixes exec :: "'db backend"
  shows
  "(\<exists>rows. map_of (fst (read_records exec s table columns filters limit offset order_by)) ''records''
            = Some (ERecords rows))
   \<and> (map_of (fst (read_records exec s table columns filters limit offset order_by)) ''error'' \<noteq> None)
       = isl (fst (SupabaseClient_read_records exec s table columns filters limit offset order_by))
   \<and> distinct (map fst (fst (read_records exec s table columns filters limit offset order_by)))
   \<and> (\<exists>rows. map_of (fst (create_records exec s table records)) ''records'' = Some (ERecords rows))
   \<and> (map_of (fst (create_records exec s table records)) ''error'' \<noteq> None)
       = isl (fst (SupabaseClient_create_records exec s table records))
   \<and> distinct (map fst (fst (create_records exec s table records)))
   \<and> (\<exists>rows. map_of (fst (update_records exec s table updates fs)) ''records'' = Some (ERecords rows))
   \<and> (map_of (fst (update_records exec s table updates fs)) ''error'' \<noteq> None)
       = isl (fst (SupabaseClient_update_records exec s table updates fs))
   \<and> distinct (map fst (fst (update_records exec s table updates fs)))
   \<and> (\<exists>rows. map_of (fst (delete_records exec s table fs)) ''records'' = Some (ERecords rows))
   \<and> (map_of (fst (delete_records exec s table fs)) ''error'' \<noteq> None)
       = isl (fst (SupabaseClient_delete_records exec s table fs))
   \<and> distinct (map fst (fst (delete_records exec s table fs)))"
proof -
  have r: "(\<exists>rows. map_of (fst (case p of (Inr records, s') \<Rightarrow> ([(''records'', ERecords records)], s')
                  | (Inl x, s') \<Rightarrow> ([(''error'', EString (str x)), (''records'', ERecords [])], s')))
               ''records'' = Some (ERecords rows))
        \<and> (map_of (fst (case p of (Inr records, s') \<Rightarrow> ([(''records'', ERecords records)], s')
                  | (Inl x, s') \<Rightarrow> ([(''error'', EString (str x)), (''records'', ERecords [])], s')))
               ''error'' \<noteq> None) = isl (fst p)
        \<and> distinct (map fst (fst (case p of (Inr records, s') \<Rightarrow> ([(''records'', ERecords records)], s')
                  | (Inl x, s') \<Rightarrow> ([(''error'', EString (str x)), (''records'', ERecords [])], s'))))"
    for p :: "(exn + row list) \<times> 'db session"
    by (cases p; cases "fst p") auto
  show ?thesis
    unfolding read_records_def create_records_def update_records_def delete_records_def
    using r [of "SupabaseClient_read_records exec s table columns filters limit offset order_by"]
      r [of "SupabaseClient_create_records exec s table records"]
      r [of "SupabaseClient_update_records exec s table updates fs"]
      r [of "SupabaseClient_delete_records exec s table fs"]
    by blast
qed

end
